theory Spec2Isabelle
  imports Complex_Main
begin

section \<open>JavaScript values shared by the widgets\<close>

text \<open>
  The repository holds three generations of one animation script: v4.0 and v6.0 (both in the
  second unnamed source file) and v5.0 (\<^verbatim>\<open>js/animations.js\<close>). Strings are lists of
  code units (\<^typ>\<open>string\<close>), numbers that the code computes with are exact rationals
  (\<^typ>\<open>rat\<close>) standing for the doubles of the source, and a timer handle is the positive
  integer that \<^verbatim>\<open>setTimeout\<close>/\<^verbatim>\<open>setInterval\<close> return.
\<close>

type_synonym handle = nat

text \<open>\<^verbatim>\<open>this.chars\<close> of both \<^verbatim>\<open>ScrambleText\<close> constructors.\<close>

definition chars :: string where
  "chars = ''!#$%&'()*+,-./:;<=>?@[]^_`{|}~''"

text \<open>
  \<^verbatim>\<open>out += s[i]\<close>: an index outside the string reads \<^verbatim>\<open>undefined\<close>, which string
  concatenation appends as the nine letters of that word.
\<close>

definition str_at :: "string \<Rightarrow> int \<Rightarrow> string" where
  "str_at s i = (if 0 \<le> i \<and> i < int (length s) then [s ! nat i] else ''undefined'')"


text \<open>
  \<^verbatim>\<open>this.chars[Math.floor(Math.random() * this.chars.length)]\<close>, for the value \<open>r\<close> that
  \<^verbatim>\<open>Math.random()\<close> returned.
\<close>

definition random_char :: "rat \<Rightarrow> string" where
  "random_char r = str_at chars \<lfloor>r * of_nat (length chars)\<rfloor>"

section \<open>Timers and the text node\<close>

text \<open>
  What a pending timer will run: the closure of the callback with the variables it captured.
  Interval callbacks (\<open>ScrambleRun\<close>, \<open>ScrambleRun_v4\<close>, \<open>GlitchRun\<close>) stay registered
  until cleared; the others are one-shot timeouts. \<open>IdleTimer\<close> carries its delay in
  milliseconds.
\<close>

datatype task =
    ScrambleRun string nat rat nat
  | ScrambleRun_v4 string nat int nat
  | GlitchRun string nat
  | IdleTimer rat
  | AnimatingDone
  | AutoCollapse

text \<open>
  The text node a \<^verbatim>\<open>ScrambleText\<close> writes to, together with the host's timer table, the
  next handle the host will hand out, and the number of \<^verbatim>\<open>Math.random()\<close> calls made so
  far (the \<open>k\<close>-th call returns \<open>rnd k\<close> for a fixed sequence \<open>rnd\<close>).
\<close>

record node =
  textContent :: string
  timers :: "(handle \<times> task) list"
  next_handle :: handle
  draws :: nat

definition setTimer :: "task \<Rightarrow> 'a node_scheme \<Rightarrow> handle \<times> 'a node_scheme" where
  "setTimer t w =
     (next_handle w,
      w\<lparr>timers := (next_handle w, t) # timers w, next_handle := Suc (next_handle w)\<rparr>)"

definition clearTimer :: "handle \<Rightarrow> 'a node_scheme \<Rightarrow> 'a node_scheme" where
  "clearTimer h w = w\<lparr>timers := filter (\<lambda>e. fst e \<noteq> h) (timers w)\<rparr>"

text \<open>\<^verbatim>\<open>clearTimeout(x)\<close> guarded by \<^verbatim>\<open>if (x)\<close>, for a field that is \<^verbatim>\<open>null\<close> or a handle.\<close>

definition clearIfSet :: "handle option \<Rightarrow> 'a node_scheme \<Rightarrow> 'a node_scheme" where
  "clearIfSet x w = (case x of None \<Rightarrow> w | Some h \<Rightarrow> clearTimer h w)"

text \<open>A callback assigning to a variable it captured: the closure stored under \<open>h\<close> changes.\<close>

definition setTask :: "handle \<Rightarrow> task \<Rightarrow> 'a node_scheme \<Rightarrow> 'a node_scheme" where
  "setTask h t w = w\<lparr>timers := map (\<lambda>e. if fst e = h then (h, t) else e) (timers w)\<rparr>"


section \<open>ScrambleText, v6.0\<close>

text \<open>
  \<^verbatim>\<open>i < newText.length * progress\<close> with \<^verbatim>\<open>progress = frame / totalFrames\<close> and
  \<open>frame \<ge> 1\<close>. Division by zero gives \<^verbatim>\<open>Infinity\<close>; \<^verbatim>\<open>0 * Infinity\<close> is
  \<^verbatim>\<open>NaN\<close>, which compares false.
\<close>

definition revealed :: "nat \<Rightarrow> nat \<Rightarrow> nat \<Rightarrow> rat \<Rightarrow> bool" where
  "revealed i newLen frame totalFrames =
     (if totalFrames = 0 then 0 < newLen
      else of_nat i < of_nat newLen * (of_nat frame / totalFrames))"

text \<open>One turn of the \<^verbatim>\<open>for\<close> loop; the accumulator is the string built so far and the random draws used.\<close>

definition scramble_step ::
  "(nat \<Rightarrow> rat) \<Rightarrow> string \<Rightarrow> nat \<Rightarrow> nat \<Rightarrow> rat \<Rightarrow> nat \<Rightarrow> string \<times> nat \<Rightarrow> string \<times> nat" where
  "scramble_step rnd newText maxLength frame totalFrames i acc =
     (if revealed i (length newText) frame totalFrames
        then (fst acc @ str_at newText (int i), snd acc)
      else if i < maxLength
        then (fst acc @ random_char (rnd (snd acc)), Suc (snd acc))
      else acc)"

definition scrambled ::
  "(nat \<Rightarrow> rat) \<Rightarrow> string \<Rightarrow> nat \<Rightarrow> nat \<Rightarrow> rat \<Rightarrow> nat \<Rightarrow> string \<times> nat" where
  "scrambled rnd newText maxLength frame totalFrames d =
     fold (scramble_step rnd newText maxLength frame totalFrames) [0..<maxLength] ([], d)"

text \<open>\<^verbatim>\<open>ScrambleText.scramble(newText, duration)\<close>; the result is the interval handle it returns.\<close>

definition scramble :: "string \<Rightarrow> rat \<Rightarrow> 'a node_scheme \<Rightarrow> handle \<times> 'a node_scheme" where
  "scramble newText duration w =
     (let oldText = textContent w;
          maxLength = max (length oldText) (length newText);
          scrambleDuration = duration * (4 / 5);
          totalFrames = scrambleDuration * 60
      in setTimer (ScrambleRun newText maxLength totalFrames 0) w)"

text \<open>The interval callback of \<open>scramble\<close>, registered under \<open>h\<close>, with \<open>frame0\<close> the captured counter.\<close>

definition scramble_frame ::
  "(nat \<Rightarrow> rat) \<Rightarrow> handle \<Rightarrow> string \<Rightarrow> nat \<Rightarrow> rat \<Rightarrow> nat \<Rightarrow> 'a node_scheme \<Rightarrow> 'a node_scheme" where
  "scramble_frame rnd h newText maxLength totalFrames frame0 w =
     (let frame = Suc frame0;
          out = scrambled rnd newText maxLength frame totalFrames (draws w);
          w1 = setTask h (ScrambleRun newText maxLength totalFrames frame) w;
          w2 = w1\<lparr>textContent := take maxLength (fst out), draws := snd out\<rparr>
      in if totalFrames \<le> of_nat frame
         then (clearTimer h w2)\<lparr>textContent := newText\<rparr>
         else w2)"



text \<open>A sample source of randomness for concrete runs: every \<^verbatim>\<open>Math.random()\<close> returns 0.5.\<close>

definition mid_draws :: "nat \<Rightarrow> rat" where
  "mid_draws k = 1 / 2"

section \<open>ScrambleText, v4.0\<close>

text \<open>The v4.0 class keeps the handle of its interval in the field \<^verbatim>\<open>this._id\<close>.\<close>

record node_v4 = node +
  scr_id :: "handle option"








section \<open>DynamicIslandNav, v6.0\<close>

text \<open>
  What the constructor finds in the document and in the global scope; none of it changes
  afterwards. \<open>titles\<close> holds \<^verbatim>\<open>dataset.navTitle\<close> of every section in document order,
  as \<^verbatim>\<open>processSections\<close> leaves it; the island and its text element exist (the constructor
  returns before creating any state otherwise). \<open>has_lenis\<close> stands for
  \<^verbatim>\<open>window.M0NARQ && window.M0NARQ.lenis\<close> (in v4.0: \<^verbatim>\<open>this.lenis\<close>).
\<close>

record page =
  titles :: "string list"
  has_prevBtn :: bool
  has_nextBtn :: bool
  has_menuButton :: bool
  has_menuPanel :: bool
  has_progressBar :: bool
  has_gsap :: bool
  has_lenis :: bool

text \<open>A scroll request handed to a collaborator, with the index of the section asked for.\<close>

datatype scroll = LenisScrollTo int | ScrollIntoView int | GsapScrollTo int

text \<open>
  \<^verbatim>\<open>this.state\<close> of the navigator, followed by the parts of the document it writes: the
  \<^verbatim>\<open>expanded\<close> class of the island, the \<^verbatim>\<open>glitching\<close> class of the text element, the
  \<^verbatim>\<open>active\<close> class of each section, the \<^verbatim>\<open>menu-open\<close> class of the menu button, the
  width (in percent) last requested for the progress bar, the \<^verbatim>\<open>touchStartY\<close> variable of
  the touch listeners, and the scroll requests issued so far (oldest first). Tweens that
  only restyle the island, the arrows and the menu panel are not recorded: nothing reads
  them back.
\<close>

record world = node +
  currentIndex :: int
  isExpanded :: bool
  isMenuOpen :: bool
  isAnimating :: bool
  idleTimeout :: "handle option"
  scrambleInterval :: "handle option"
  morphTimeout :: "handle option"
  island_expanded :: bool
  glitching :: bool
  section_active :: "bool list"
  menu_open_class :: bool
  progress :: "rat option"
  touchStartY :: rat
  scrolls :: "scroll list"

text \<open>\<^verbatim>\<open>String.prototype.toUpperCase\<close> on the letters a to z; other code units are kept.\<close>

definition upper_char :: "char \<Rightarrow> char" where
  "upper_char c =
     (let n = (of_char c :: nat) in if 97 \<le> n \<and> n \<le> 122 then char_of (n - 32) else c)"

definition toUpperCase :: "string \<Rightarrow> string" where
  "toUpperCase s = map upper_char s"

definition glitchChars :: string where
  "glitchChars = ''!@#$%^&*()_+''"

definition startIdleAnimation :: "(nat \<Rightarrow> rat) \<Rightarrow> world \<Rightarrow> world" where
  "startIdleAnimation rnd w =
     (let w1 = clearIfSet (morphTimeout w) w
      in if \<not> isExpanded w1 \<and> \<not> isMenuOpen w1
         then (let delay = 3000 + rnd (draws w1) * 2000;
                   (h, w2) = setTimer (IdleTimer delay) (w1\<lparr>draws := Suc (draws w1)\<rparr>)
               in w2\<lparr>morphTimeout := Some h\<rparr>)
         else w1)"

definition glitchText :: "world \<Rightarrow> world" where
  "glitchText w =
     (let currentText = textContent w;
          w1 = w\<lparr>glitching := True\<rparr>
      in snd (setTimer (GlitchRun currentText 0) w1))"

definition glitch_step :: "(nat \<Rightarrow> rat) \<Rightarrow> string \<Rightarrow> nat \<Rightarrow> string \<times> nat \<Rightarrow> string \<times> nat" where
  "glitch_step rnd currentText i acc =
     (if rnd (snd acc) < 1 / 10
      then (fst acc @ str_at glitchChars \<lfloor>rnd (Suc (snd acc)) * of_nat (length glitchChars)\<rfloor>,
            Suc (Suc (snd acc)))
      else (fst acc @ str_at currentText (int i), Suc (snd acc)))"

text \<open>The interval callback of \<open>glitchText\<close>, registered under \<open>h\<close>.\<close>

definition glitch_frame :: "(nat \<Rightarrow> rat) \<Rightarrow> handle \<Rightarrow> string \<Rightarrow> nat \<Rightarrow> world \<Rightarrow> world" where
  "glitch_frame rnd h currentText glitchCount w =
     (if glitchCount < 5
      then (let out = fold (glitch_step rnd currentText) [0..<length currentText] ([], draws w);
                w1 = setTask h (GlitchRun currentText (Suc glitchCount)) w
            in w1\<lparr>textContent := fst out, draws := snd out\<rparr>)
      else (clearTimer h w)\<lparr>textContent := currentText, glitching := False\<rparr>)"

text \<open>The callback of the timeout armed by \<open>startIdleAnimation\<close>.\<close>

definition idle_callback :: "(nat \<Rightarrow> rat) \<Rightarrow> world \<Rightarrow> world" where
  "idle_callback rnd w =
     (if \<not> isExpanded w \<and> \<not> isMenuOpen w
      then startIdleAnimation rnd (glitchText w)
      else w)"

definition updateText :: "string \<Rightarrow> world \<Rightarrow> world" where
  "updateText newText w =
     (if isAnimating w then w
      else (let w1 = w\<lparr>isAnimating := True\<rparr>;
                w2 = clearIfSet (scrambleInterval w1) w1;
                w3 = clearIfSet (morphTimeout w2) w2;
                (h, w4) = scramble (toUpperCase newText) (3 / 5) w3;
                w5 = w4\<lparr>scrambleInterval := Some h\<rparr>
            in snd (setTimer AnimatingDone w5)))"

text \<open>The callback of the 600 ms timeout set by \<open>updateText\<close>.\<close>

definition animating_done :: "(nat \<Rightarrow> rat) \<Rightarrow> world \<Rightarrow> world" where
  "animating_done rnd w =
     (let w1 = w\<lparr>isAnimating := False\<rparr>
      in if \<not> isExpanded w1 then startIdleAnimation rnd w1 else w1)"

definition updateProgress :: "page \<Rightarrow> world \<Rightarrow> world" where
  "updateProgress pg w =
     (if \<not> has_progressBar pg then w
      else (let progress_pct = (of_int (currentIndex w + 1) / of_nat (length (titles pg))) * 100
            in w\<lparr>progress := Some progress_pct\<rparr>))"

definition updateCurrentSection :: "page \<Rightarrow> nat \<Rightarrow> world \<Rightarrow> world" where
  "updateCurrentSection pg index w =
     (let w1 = w\<lparr>currentIndex := int index\<rparr>
      in if \<not> index < length (titles pg) then w1
         else (let title = titles pg ! index;
                   w2 = updateText title w1;
                   w3 = w2\<lparr>section_active := map (\<lambda>_. False) (section_active w2)\<rparr>;
                   w4 = w3\<lparr>section_active := (section_active w3)[index := True]\<rparr>
               in updateProgress pg w4))"

text \<open>
  The visibility observer's callback; an entry is \<^verbatim>\<open>isIntersecting\<close> and the
  \<^verbatim>\<open>dataset.index\<close> of the observed section (always a number: \<^verbatim>\<open>processSections\<close> set it).
\<close>

definition observe_entry :: "page \<Rightarrow> bool \<times> nat \<Rightarrow> world \<Rightarrow> world" where
  "observe_entry pg entry w =
     (if fst entry
      then (let index = snd entry
            in if int index \<noteq> currentIndex w then updateCurrentSection pg index w else w)
      else w)"

definition intersection_callback :: "page \<Rightarrow> (bool \<times> nat) list \<Rightarrow> world \<Rightarrow> world" where
  "intersection_callback pg entries w = fold (observe_entry pg) entries w"

definition resetIdleTimer :: "world \<Rightarrow> world" where
  "resetIdleTimer w =
     (let w1 = clearIfSet (idleTimeout w) w
      in if isExpanded w1
         then (let (h, w2) = setTimer AutoCollapse w1 in w2\<lparr>idleTimeout := Some h\<rparr>)
         else w1)"

definition toggleExpanded :: "(nat \<Rightarrow> rat) \<Rightarrow> bool \<Rightarrow> world \<Rightarrow> world" where
  "toggleExpanded rnd shouldExpand w =
     (let w1 = w\<lparr>isExpanded := shouldExpand\<rparr>
      in if shouldExpand
         then (let w2 = w1\<lparr>island_expanded := True\<rparr>;
                   w3 = resetIdleTimer w2
               in clearIfSet (morphTimeout w3) w3)
         else (let w2 = w1\<lparr>island_expanded := False\<rparr>;
                   w3 = clearIfSet (idleTimeout w2) w2
               in startIdleAnimation rnd w3))"

definition toggleMenu :: "page \<Rightarrow> bool option \<Rightarrow> world \<Rightarrow> world" where
  "toggleMenu pg force w =
     (if \<not> has_menuPanel pg \<or> \<not> has_menuButton pg then w
      else (let shouldOpen = (case force of Some b \<Rightarrow> b | None \<Rightarrow> \<not> isMenuOpen w)
            in w\<lparr>isMenuOpen := shouldOpen, menu_open_class := shouldOpen\<rparr>))"

definition navigateToSection :: "page \<Rightarrow> int \<Rightarrow> world \<Rightarrow> world" where
  "navigateToSection pg index w =
     (if isAnimating w then w
      else (let clampedIndex = max 0 (min (int (length (titles pg)) - 1) index)
            in if clampedIndex = currentIndex w then w
               else if has_gsap pg \<and> has_lenis pg
                 then w\<lparr>scrolls := scrolls w @ [LenisScrollTo clampedIndex]\<rparr>
               else w\<lparr>scrolls := scrolls w @ [ScrollIntoView clampedIndex]\<rparr>))"

text \<open>The host runs the timer registered under \<open>h\<close>; a one-shot timeout leaves the table first.\<close>

definition timer_fires :: "(nat \<Rightarrow> rat) \<Rightarrow> handle \<Rightarrow> world \<Rightarrow> world" where
  "timer_fires rnd h w =
     (case map_of (timers w) h of
        None \<Rightarrow> w
      | Some (ScrambleRun newText maxLength totalFrames frame0) \<Rightarrow>
          scramble_frame rnd h newText maxLength totalFrames frame0 w
      | Some (ScrambleRun_v4 newText maxLength frames f0) \<Rightarrow> w
      | Some (GlitchRun currentText glitchCount) \<Rightarrow> glitch_frame rnd h currentText glitchCount w
      | Some (IdleTimer delay) \<Rightarrow> idle_callback rnd (clearTimer h w)
      | Some AnimatingDone \<Rightarrow> animating_done rnd (clearTimer h w)
      | Some AutoCollapse \<Rightarrow> toggleExpanded rnd False (clearTimer h w))"

datatype key = ArrowUp | ArrowLeft | ArrowDown | ArrowRight | Escape | OtherKey

text \<open>
  What the host can deliver to the listeners set up by \<^verbatim>\<open>setupEventListeners\<close> and
  \<^verbatim>\<open>setupIntersectionObserver\<close>: a click on the island outside its arrows, on the
  previous or next arrow, on the menu button, outside island and menu button; a key; a touch
  starting or ending on the island at a vertical position; a visibility report; a timer.
\<close>

datatype event =
    IslandClick
  | PrevClick
  | NextClick
  | MenuButtonClick
  | OutsideClick
  | KeyDown key
  | TouchStart rat
  | TouchEnd rat
  | Intersection "(bool \<times> nat) list"
  | TimerFires handle

definition key_listener :: "(nat \<Rightarrow> rat) \<Rightarrow> page \<Rightarrow> key \<Rightarrow> world \<Rightarrow> world" where
  "key_listener rnd pg k w =
     (if k = ArrowUp \<or> k = ArrowLeft then navigateToSection pg (currentIndex w - 1) w
      else if k = ArrowDown \<or> k = ArrowRight then navigateToSection pg (currentIndex w + 1) w
      else if k = Escape then toggleMenu pg (Some False) (toggleExpanded rnd False w)
      else w)"

definition touchend_listener :: "page \<Rightarrow> rat \<Rightarrow> world \<Rightarrow> world" where
  "touchend_listener pg touchEndY w =
     (let diff = touchStartY w - touchEndY
      in if \<bar>diff\<bar> > 50
         then navigateToSection pg (currentIndex w + (if diff > 0 then 1 else - 1)) w
         else w)"

fun listener :: "(nat \<Rightarrow> rat) \<Rightarrow> page \<Rightarrow> event \<Rightarrow> world \<Rightarrow> world" where
  "listener rnd pg IslandClick w = toggleExpanded rnd (\<not> isExpanded w) w"
| "listener rnd pg PrevClick w =
     (if has_prevBtn pg then resetIdleTimer (navigateToSection pg (currentIndex w - 1) w) else w)"
| "listener rnd pg NextClick w =
     (if has_nextBtn pg then resetIdleTimer (navigateToSection pg (currentIndex w + 1) w) else w)"
| "listener rnd pg MenuButtonClick w =
     (if has_menuButton pg then toggleMenu pg None w else w)"
| "listener rnd pg OutsideClick w =
     (if has_menuButton pg then toggleMenu pg (Some False) (toggleExpanded rnd False w) else w)"
| "listener rnd pg (KeyDown k) w = key_listener rnd pg k w"
| "listener rnd pg (TouchStart y) w = w\<lparr>touchStartY := y\<rparr>"
| "listener rnd pg (TouchEnd y) w = touchend_listener pg y w"
| "listener rnd pg (Intersection entries) w = intersection_callback pg entries w"
| "listener rnd pg (TimerFires h) w = timer_fires rnd h w"

text \<open>
  The document before the script runs (no class set, no timer pending) and the navigator
  after its constructor and \<^verbatim>\<open>init()\<close>; with no section, \<^verbatim>\<open>init()\<close> returns before it
  registers a listener.
\<close>

definition document0 :: "page \<Rightarrow> world" where
  "document0 pg =
     \<lparr>textContent = [], timers = [], next_handle = 1, draws = 0,
      currentIndex = 0, isExpanded = False, isMenuOpen = False, isAnimating = False,
      idleTimeout = None, scrambleInterval = None, morphTimeout = None,
      island_expanded = False, glitching = False,
      section_active = replicate (length (titles pg)) False,
      menu_open_class = False, progress = None, touchStartY = 0, scrolls = []\<rparr>"

definition init :: "(nat \<Rightarrow> rat) \<Rightarrow> page \<Rightarrow> world" where
  "init rnd pg =
     (let w = document0 pg
      in if titles pg = [] then w
         else (let w1 = updateProgress pg w;
                   firstTitle = toUpperCase (titles pg ! 0);
                   w2 = w1\<lparr>textContent := firstTitle\<rparr>
               in startIdleAnimation rnd w2))"

definition dispatch :: "(nat \<Rightarrow> rat) \<Rightarrow> page \<Rightarrow> event \<Rightarrow> world \<Rightarrow> world" where
  "dispatch rnd pg ev w = (if titles pg = [] then w else listener rnd pg ev w)"

definition run :: "(nat \<Rightarrow> rat) \<Rightarrow> page \<Rightarrow> event list \<Rightarrow> world \<Rightarrow> world" where
  "run rnd pg evs w = fold (dispatch rnd pg) evs w"

section \<open>DynamicIslandNav.go, v4.0\<close>

text \<open>The fields of the v4.0 \<^verbatim>\<open>this.state\<close>, with the scroll requests issued so far.\<close>

record island_v4 = node_v4 +
  idx :: int
  expanded :: bool
  menu :: bool
  isAnimating_v4 :: bool
  idleTimeout_v4 :: "handle option"
  morphTimeout_v4 :: "handle option"
  scrolls_v4 :: "scroll list"

definition go :: "page \<Rightarrow> int \<Rightarrow> island_v4 \<Rightarrow> island_v4" where
  "go pg i w =
     (if isAnimating_v4 w then w
      else (let clampedIndex = max 0 (min (int (length (titles pg)) - 1) i)
            in if clampedIndex = idx w then w
               else if has_lenis pg
                 then w\<lparr>scrolls_v4 := scrolls_v4 w @ [LenisScrollTo clampedIndex]\<rparr>
               else w\<lparr>scrolls_v4 := scrolls_v4 w @ [GsapScrollTo clampedIndex]\<rparr>))"

section \<open>Notions used to state the navigator's properties\<close>

text \<open>A page with three sections and every anchor element, for concrete runs.\<close>

definition sample_page :: page where
  "sample_page =
     \<lparr>titles = [''Intro'', ''Work'', ''Contact''],
      has_prevBtn = True, has_nextBtn = True, has_menuButton = True, has_menuPanel = True,
      has_progressBar = True, has_gsap = True, has_lenis = True\<rparr>"

fun is_scramble :: "task \<Rightarrow> bool" where
  "is_scramble (ScrambleRun newText maxLength totalFrames frame) = True"
| "is_scramble t = False"

fun is_idle :: "task \<Rightarrow> bool" where
  "is_idle (IdleTimer delay) = True"
| "is_idle t = False"

fun is_glitch :: "task \<Rightarrow> bool" where
  "is_glitch (GlitchRun currentText glitchCount) = True"
| "is_glitch t = False"

text \<open>The pending scramble intervals, idle timeouts and glitch intervals of a timer table.\<close>

definition scramble_runs :: "'a node_scheme \<Rightarrow> (handle \<times> task) list" where
  "scramble_runs w = filter (\<lambda>e. is_scramble (snd e)) (timers w)"

definition idle_timers :: "'a node_scheme \<Rightarrow> (handle \<times> task) list" where
  "idle_timers w = filter (\<lambda>e. is_idle (snd e)) (timers w)"

definition glitch_runs :: "'a node_scheme \<Rightarrow> (handle \<times> task) list" where
  "glitch_runs w = filter (\<lambda>e. is_glitch (snd e)) (timers w)"

text \<open>The handles under which a glitch interval is pending.\<close>

definition glitch_handles :: "'a node_scheme \<Rightarrow> handle set" where
  "glitch_handles w = fst ` set (glitch_runs w)"

text \<open>
  The bookkeeping every state of the navigator satisfies: handles are handed out once and in
  increasing order, a pending scramble interval is the one stored in
  \<^verbatim>\<open>state.scrambleInterval\<close>, and a pending idle timeout is the one stored in
  \<^verbatim>\<open>state.morphTimeout\<close>.
\<close>

definition tidy :: "world \<Rightarrow> bool" where
  "tidy w \<longleftrightarrow>
     distinct (map fst (timers w))
     \<and> list_all (\<lambda>e. fst e < next_handle w) (timers w)
     \<and> list_all (\<lambda>e. scrambleInterval w = Some (fst e)) (scramble_runs w)
     \<and> list_all (\<lambda>e. morphTimeout w = Some (fst e)) (idle_timers w)"

text \<open>The directional navigation requests: an arrow control, an arrow key, a touch ending on the island.\<close>

fun nav_request :: "event \<Rightarrow> bool" where
  "nav_request PrevClick = True"
| "nav_request NextClick = True"
| "nav_request (KeyDown k) = (k = ArrowUp \<or> k = ArrowLeft \<or> k = ArrowDown \<or> k = ArrowRight)"
| "nav_request (TouchEnd y) = True"
| "nav_request ev = False"

text \<open>
  The specification's ``most recently confirmed visibility-observer report'': the index of
  the last entry reported as intersecting in a sequence of events, or \<open>start\<close> when there is none.
\<close>

fun confirmed_index :: "event list \<Rightarrow> int \<Rightarrow> int" where
  "confirmed_index [] start = start"
| "confirmed_index (Intersection entries # evs) start =
     confirmed_index evs (fold (\<lambda>entry cur. if fst entry then int (snd entry) else cur) entries start)"
| "confirmed_index (ev # evs) start = confirmed_index evs start"

section \<open>The stats counter (initStatsCounters, v6.0)\<close>

text \<open>
  A JavaScript number as the counter needs it: not-a-number, an infinity, or a finite value
  given by its sign (\<open>True\<close> for negative, so that \<^verbatim>\<open>-0\<close> is kept) and its magnitude.
\<close>

datatype number = NaN | Infinite bool | Num bool rat

definition is_digit :: "char \<Rightarrow> bool" where
  "is_digit c = (48 \<le> (of_char c :: nat) \<and> (of_char c :: nat) \<le> 57)"

text \<open>The white space of the first 128 code units.\<close>

definition is_space :: "char \<Rightarrow> bool" where
  "is_space c = ((of_char c :: nat) \<in> {9, 10, 11, 12, 13, 32})"

definition decimal :: "string \<Rightarrow> nat" where
  "decimal ds = foldl (\<lambda>n c. 10 * n + ((of_char c :: nat) - 48)) 0 ds"

definition split_sign :: "string \<Rightarrow> bool \<times> string" where
  "split_sign s =
     (case s of
        [] \<Rightarrow> (False, [])
      | c # r \<Rightarrow> if c = CHR ''-'' then (True, r) else if c = CHR ''+'' then (False, r) else (False, s))"

definition exponent :: "string \<Rightarrow> int" where
  "exponent s =
     (case s of
        [] \<Rightarrow> 0
      | c # r \<Rightarrow>
          if c = CHR ''e'' \<or> c = CHR ''E''
          then (let ds = takeWhile is_digit (snd (split_sign r))
                in if ds = [] then 0
                   else if fst (split_sign r) then - int (decimal ds) else int (decimal ds))
          else 0)"

text \<open>
  The built-in \<^verbatim>\<open>parseFloat\<close>: leading white space, a sign, then \<^verbatim>\<open>Infinity\<close> or the longest
  decimal literal (digits, fraction, exponent); anything after it is ignored. The value is the
  exact decimal; rounding to a double and overflow to an infinity are not modelled.
\<close>

definition parseFloat :: "string \<Rightarrow> number" where
  "parseFloat s =
     (let neg = fst (split_sign (dropWhile is_space s));
          u = snd (split_sign (dropWhile is_space s))
      in if take 8 u = ''Infinity'' then Infinite neg
         else (let ip = takeWhile is_digit u;
                   r1 = dropWhile is_digit u;
                   fp = (case r1 of [] \<Rightarrow> [] | c # r \<Rightarrow> if c = CHR ''.'' then takeWhile is_digit r else []);
                   r2 = (case r1 of [] \<Rightarrow> [] | c # r \<Rightarrow> if c = CHR ''.'' then dropWhile is_digit r else r1)
               in if ip = [] \<and> fp = [] then NaN
                  else (let mantissa = of_nat (decimal (ip @ fp)) / 10 ^ length fp;
                            ex = exponent r2
                        in Num neg (if 0 \<le> ex then mantissa * 10 ^ nat ex
                                    else mantissa / 10 ^ nat (- ex)))))"

text \<open>
  \<^verbatim>\<open>hasDecimals ? el.dataset.counter.split('.')[1].length : 0\<close>: the length of what stands
  between the first point and the next one (or the end).
\<close>

definition decimals_of :: "string \<Rightarrow> nat" where
  "decimals_of s =
     (if CHR ''.'' \<in> set s
      then length (takeWhile (\<lambda>c. c \<noteq> CHR ''.'') (tl (dropWhile (\<lambda>c. c \<noteq> CHR ''.'') s)))
      else 0)"

function digits :: "nat \<Rightarrow> string" where
  "digits n = (if n < 10 then [char_of (48 + n)] else digits (n div 10) @ [char_of (48 + n mod 10)])"
  by pat_completeness auto
termination
  by (relation "measure id") auto

declare digits.simps [simp del]

function group3 :: "string \<Rightarrow> string" where
  "group3 s = (if length s \<le> 3 then s
               else group3 (take (length s - 3) s) @ '','' @ drop (length s - 3) s)"
  by pat_completeness auto
termination
  by (relation "measure length") auto

declare group3.simps [simp del]

datatype format_error = RangeError | Unrepresentable

text \<open>
  \<^verbatim>\<open>value.toLocaleString('en-US', {minimumFractionDigits: d, maximumFractionDigits: d})\<close>
  for a finite value: rounded half away from zero to \<open>d\<close> fraction digits, the integer part
  grouped by threes with commas. More than 100 fraction digits are a \<^verbatim>\<open>RangeError\<close>.
\<close>

definition toLocaleString :: "bool \<Rightarrow> rat \<Rightarrow> nat \<Rightarrow> format_error + string" where
  "toLocaleString neg magnitude d =
     (if 100 < d then Inl RangeError
      else (let scaled = nat (round (magnitude * 10 ^ d));
                whole = digits (scaled div 10 ^ d);
                part = digits (scaled mod 10 ^ d)
            in Inr ((if neg then ''-'' else []) @ group3 whole
                    @ (if d = 0 then [] else ''.'' @ replicate (d - length part) (CHR ''0'') @ part))))"

text \<open>An element carrying \<^verbatim>\<open>data-counter\<close>, its optional \<^verbatim>\<open>data-suffix\<close> and its text.\<close>

record counter_element =
  counter :: string
  suffix :: "string option"
  shown :: string

text \<open>The \<^verbatim>\<open>onUpdate\<close> callback, for the value the tween has given \<^verbatim>\<open>obj.value\<close>.\<close>

definition onUpdate :: "nat \<Rightarrow> string option \<Rightarrow> bool \<Rightarrow> rat \<Rightarrow> format_error + string" where
  "onUpdate decimals sfx neg v =
     (case toLocaleString neg v decimals of
        Inl e \<Rightarrow> Inl e
      | Inr formatted \<Rightarrow> Inr (formatted @ (case sfx of Some s \<Rightarrow> s | None \<Rightarrow> [])))"

text \<open>The ease \<^verbatim>\<open>power2.out\<close> of the tween.\<close>

definition power2_out :: "rat \<Rightarrow> rat" where
  "power2_out p = 1 - (1 - p) ^ 2"

text \<open>
  The magnitudes \<^verbatim>\<open>obj.value\<close> takes while the tween library animates it from 0 to the target:
  one for each tick, at the progress the tick has, and the target itself at the last tick.
\<close>

definition tween_values :: "rat \<Rightarrow> rat list \<Rightarrow> rat list" where
  "tween_values target ticks = map (\<lambda>p. target * power2_out p) ticks @ [target]"

fun updates :: "nat \<Rightarrow> string option \<Rightarrow> bool \<Rightarrow> rat list \<Rightarrow> string \<Rightarrow> format_error + string" where
  "updates decimals sfx neg [] text = Inr text"
| "updates decimals sfx neg (v # vs) text =
     (case onUpdate decimals sfx neg v of
        Inl e \<Rightarrow> Inl e
      | Inr text' \<Rightarrow> updates decimals sfx neg vs text')"

text \<open>
  The text of a counter element once its trigger has fired and the 2-second tween has
  completed; an element whose attribute is not a number is skipped. The text for an infinite
  target (the sign U+221E) is outside \<^typ>\<open>string\<close>.
\<close>

definition animate_counter :: "counter_element \<Rightarrow> rat list \<Rightarrow> format_error + string" where
  "animate_counter el ticks =
     (case parseFloat (counter el) of
        NaN \<Rightarrow> Inr (shown el)
      | Infinite neg \<Rightarrow> Inl Unrepresentable
      | Num neg target \<Rightarrow>
          (let decimals = decimals_of (counter el)
           in updates decimals (suffix el) neg (tween_values target ticks) (shown el)))"

section \<open>Scroll-linked reveal (initScrollAnimations, v6.0)\<close>

text \<open>
  An element of the page as \<^verbatim>\<open>initScrollAnimations\<close> sees it: whether it matches
  \<^verbatim>\<open>[data-animate]\<close> and \<^verbatim>\<open>.project-card\<close>, whether \<^verbatim>\<open>dataset.animated\<close> is set, whether
  its trigger in the first and in the second \<^verbatim>\<open>ScrollTrigger.batch\<close> is still alive (both are
  registered with \<^verbatim>\<open>once: true\<close>, so a trigger dies when it fires), and how many tweens
  each of the two \<^verbatim>\<open>onEnter\<close> callbacks has created on it.
\<close>

record element =
  data_animate :: bool
  project_card :: bool
  animated :: bool
  reveal_armed :: bool
  card_armed :: bool
  reveal_runs :: nat
  card_runs :: nat

text \<open>
  The elements, by position, and the tweens created whose \<^verbatim>\<open>onStart\<close> has not run yet, each
  with the positions of the elements it animates.
\<close>

record reveals =
  elements :: "element list"
  pending :: "nat list list"

definition change :: "(element \<Rightarrow> element) \<Rightarrow> nat list \<Rightarrow> element list \<Rightarrow> element list" where
  "change f batch els = fold (\<lambda>i xs. if i < length xs then xs[i := f (xs ! i)] else xs) batch els"

text \<open>\<^verbatim>\<open>onEnter\<close> of the \<^verbatim>\<open>[data-animate]\<close> batch: one \<^verbatim>\<open>gsap.fromTo\<close> on the whole batch.\<close>

definition onEnter_reveal :: "nat list \<Rightarrow> reveals \<Rightarrow> reveals" where
  "onEnter_reveal batch s =
     s\<lparr>elements := change (\<lambda>e. e\<lparr>reveal_runs := Suc (reveal_runs e)\<rparr>) batch (elements s),
       pending := pending s @ [batch]\<rparr>"

text \<open>\<^verbatim>\<open>onEnter\<close> of the \<^verbatim>\<open>.project-card\<close> batch: elements already flagged are skipped.\<close>

definition onEnter_card :: "nat list \<Rightarrow> reveals \<Rightarrow> reveals" where
  "onEnter_card batch s =
     (let toAnimate = filter (\<lambda>i. \<not> animated (elements s ! i)) batch
      in if toAnimate = [] then s
         else s\<lparr>elements := change (\<lambda>e. e\<lparr>card_runs := Suc (card_runs e)\<rparr>) toAnimate (elements s),
                pending := pending s @ [toAnimate]\<rparr>)"

text \<open>\<^verbatim>\<open>onStart\<close> of the \<open>k\<close>-th pending tween: it flags the elements the tween animates.\<close>

definition onStart :: "nat \<Rightarrow> reveals \<Rightarrow> reveals" where
  "onStart k s =
     (if k < length (pending s)
      then s\<lparr>elements := change (\<lambda>e. e\<lparr>animated := True\<rparr>) (pending s ! k) (elements s),
             pending := take k (pending s) @ drop (Suc k) (pending s)\<rparr>
      else s)"

text \<open>
  What the scroll library does when the listed elements reach the line \<^verbatim>\<open>top 85%\<close> (start of
  the first batch) or \<^verbatim>\<open>top 80%\<close> (start of the second): the live triggers among them fire,
  die, and their elements are handed to \<^verbatim>\<open>onEnter\<close> as one batch. An element's top reaches
  85% of the viewport height no later than 80%, so the second trigger of an element that also
  matches \<^verbatim>\<open>[data-animate]\<close> fires only once the first has.
\<close>

definition reach85 :: "nat list \<Rightarrow> reveals \<Rightarrow> reveals" where
  "reach85 ids s =
     (let batch = filter (\<lambda>i. i < length (elements s) \<and> data_animate (elements s ! i)
                               \<and> reveal_armed (elements s ! i)) (remdups ids);
          s1 = s\<lparr>elements := change (\<lambda>e. e\<lparr>reveal_armed := False\<rparr>) batch (elements s)\<rparr>
      in if batch = [] then s1 else onEnter_reveal batch s1)"

definition reach80 :: "nat list \<Rightarrow> reveals \<Rightarrow> reveals" where
  "reach80 ids s =
     (let batch = filter (\<lambda>i. i < length (elements s) \<and> project_card (elements s ! i)
                               \<and> card_armed (elements s ! i)
                               \<and> \<not> (data_animate (elements s ! i) \<and> reveal_armed (elements s ! i)))
                    (remdups ids);
          s1 = s\<lparr>elements := change (\<lambda>e. e\<lparr>card_armed := False\<rparr>) batch (elements s)\<rparr>
      in if batch = [] then s1 else onEnter_card batch s1)"







section \<open>Facts about the timer table\<close>

















section \<open>C1: a scramble run ends on its target\<close>




section \<open>C2: which positions a frame reveals\<close>




























section \<open>C10: navigation requests during the label transition\<close>

text \<open>
  Claim C10. A call of \<^verbatim>\<open>navigateToSection\<close> (v6.0) or \<^verbatim>\<open>go\<close> (v4.0) made while
  \<^verbatim>\<open>isAnimating\<close> is set is a complete no-op: the whole state after the call, including the
  list of scroll requests and the timer table (nothing is queued), is the state before it. So
  an arrow key or a swipe arriving then is dropped.
\<close>

theorem navigation_dropped_while_animating:
  "(isAnimating w \<longrightarrow>
      navigateToSection pg index w = w
      \<and> (\<forall>k. k \<noteq> Escape \<longrightarrow> listener rnd pg (KeyDown k) w = w)
      \<and> (\<forall>y. listener rnd pg (TouchEnd y) w = w))
   \<and> (isAnimating_v4 v \<longrightarrow> go pg i v = v)"
  by (simp add: navigateToSection_def go_def key_listener_def touchend_listener_def Let_def)

theorem navigation_dropped_while_animating_witness:
  "isAnimating (dispatch mid_draws sample_page (Intersection [(True, 1)]) (init mid_draws sample_page))
   \<and> navigateToSection sample_page 2
         (dispatch mid_draws sample_page (Intersection [(True, 1)]) (init mid_draws sample_page))
       = dispatch mid_draws sample_page (Intersection [(True, 1)]) (init mid_draws sample_page)
   \<and> isAnimating_v4
         \<lparr>textContent = ''INTRO'', timers = [], next_handle = 1, draws = 0, scr_id = None, idx = 0,
          expanded = False, menu = False, isAnimating_v4 = True, idleTimeout_v4 = None,
          morphTimeout_v4 = None, scrolls_v4 = []\<rparr>
   \<and> scrolls_v4 (go sample_page 1
         \<lparr>textContent = ''INTRO'', timers = [], next_handle = 1, draws = 0, scr_id = None, idx = 0,
          expanded = False, menu = False, isAnimating_v4 = True, idleTimeout_v4 = None,
          morphTimeout_v4 = None, scrolls_v4 = []\<rparr>) = []"
proof -
  have a: "isAnimating (dispatch mid_draws sample_page (Intersection [(True, 1)]) (init mid_draws sample_page))"
    by code_simp
  show ?thesis
    using a navigation_dropped_while_animating
      [where w = "dispatch mid_draws sample_page (Intersection [(True, 1)]) (init mid_draws sample_page)"
        and pg = sample_page and index = 2 and i = 1
        and v = "\<lparr>textContent = ''INTRO'', timers = [], next_handle = 1, draws = 0, scr_id = None, idx = 0,
          expanded = False, menu = False, isAnimating_v4 = True, idleTimeout_v4 = None,
          morphTimeout_v4 = None, scrolls_v4 = []\<rparr>"]
    by simp
qed

section \<open>C5: the requested index is clamped\<close>

lemma resetIdleTimer_keeps:
  "currentIndex (resetIdleTimer w) = currentIndex w"
  "scrolls (resetIdleTimer w) = scrolls w"
  "section_active (resetIdleTimer w) = section_active w"
  "progress (resetIdleTimer w) = progress w"
  by (simp_all add: resetIdleTimer_def clearIfSet_def clearTimer_def setTimer_def Let_def split: option.split)

lemma navigateToSection_keeps:
  "currentIndex (navigateToSection pg i w) = currentIndex w"
  "section_active (navigateToSection pg i w) = section_active w"
  "progress (navigateToSection pg i w) = progress w"
  by (simp_all add: navigateToSection_def Let_def)




section \<open>C4: only the visibility observer sets the current index\<close>

lemma timer_ops_keep:
  fixes w :: world
  shows "currentIndex (clearTimer h w) = currentIndex w"
    and "currentIndex (clearIfSet x w) = currentIndex w"
    and "currentIndex (snd (setTimer t w)) = currentIndex w"
    and "currentIndex (setTask h t w) = currentIndex w"
  by (simp_all add: clearTimer_def clearIfSet_def setTimer_def setTask_def split: option.split)

lemma currentIndex_startIdleAnimation: "currentIndex (startIdleAnimation rnd w) = currentIndex w"
  by (simp add: startIdleAnimation_def clearIfSet_def clearTimer_def setTimer_def Let_def split: option.split)

lemma currentIndex_updateText: "currentIndex (updateText t w) = currentIndex w"
  by (simp add: updateText_def scramble_def clearIfSet_def clearTimer_def setTimer_def Let_def split: option.split)

lemma currentIndex_toggleExpanded: "currentIndex (toggleExpanded rnd b w) = currentIndex w"
  by (simp add: toggleExpanded_def Let_def currentIndex_startIdleAnimation timer_ops_keep resetIdleTimer_keeps)

lemma currentIndex_toggleMenu: "currentIndex (toggleMenu pg f w) = currentIndex w"
  by (simp add: toggleMenu_def Let_def)

lemma currentIndex_timer_fires: "currentIndex (timer_fires rnd h w) = currentIndex w"
  by (simp add: timer_fires_def scramble_frame_def glitch_frame_def idle_callback_def animating_done_def
      glitchText_def Let_def currentIndex_startIdleAnimation currentIndex_toggleExpanded timer_ops_keep
      split: option.split task.split)

lemma currentIndex_observe_entry:
  "currentIndex (observe_entry pg e w) = (if fst e then int (snd e) else currentIndex w)"
  by (simp add: observe_entry_def updateCurrentSection_def updateProgress_def currentIndex_updateText Let_def)

lemma currentIndex_intersection:
  "currentIndex (intersection_callback pg es w)
     = fold (\<lambda>entry cur. if fst entry then int (snd entry) else cur) es (currentIndex w)"
  unfolding intersection_callback_def
  by (induction es arbitrary: w) (simp_all add: currentIndex_observe_entry)

lemma currentIndex_listener:
  "currentIndex (listener rnd pg ev w) = confirmed_index [ev] (currentIndex w)"
  by (cases ev)
    (simp_all add: currentIndex_toggleExpanded currentIndex_toggleMenu currentIndex_timer_fires
      currentIndex_intersection resetIdleTimer_keeps navigateToSection_keeps key_listener_def
      touchend_listener_def Let_def)

lemma confirmed_index_Cons:
  "confirmed_index (ev # evs) start = confirmed_index evs (confirmed_index [ev] start)"
  by (cases ev) simp_all

lemma currentIndex_run:
  "titles pg \<noteq> [] \<Longrightarrow> currentIndex (run rnd pg evs w) = confirmed_index evs (currentIndex w)"
proof (induction evs arbitrary: w)
  case Nil
  then show ?case by (simp add: run_def)
next
  case (Cons ev evs)
  have "run rnd pg (ev # evs) w = run rnd pg evs (listener rnd pg ev w)"
    using Cons.prems by (simp add: run_def dispatch_def)
  then show ?case
    using Cons.IH [OF Cons.prems, of "listener rnd pg ev w"]
    by (simp only: currentIndex_listener confirmed_index_Cons [of ev evs])
qed


lemma nav_request_keeps:
  assumes "nav_request ev"
  shows "currentIndex (dispatch rnd pg ev w) = currentIndex w"
    and "section_active (dispatch rnd pg ev w) = section_active w"
    and "progress (dispatch rnd pg ev w) = progress w"
  using assms
  by (cases ev; auto simp: dispatch_def resetIdleTimer_keeps navigateToSection_keeps key_listener_def
      touchend_listener_def Let_def)+

lemma confirmed_index_requests: "list_all nav_request evs \<Longrightarrow> confirmed_index evs start = start"
proof (induction evs)
  case Nil
  then show ?case by simp
next
  case (Cons ev evs)
  then show ?case by (cases ev) simp_all
qed

lemma confirmed_index_changes:
  assumes "confirmed_index [ev] start \<noteq> start"
  shows "\<exists>entries. ev = Intersection entries \<and> list_ex fst entries"
proof (cases ev)
  case (Intersection entries)
  have "\<not> list_ex fst es \<Longrightarrow> fold (\<lambda>entry cur. if fst entry then int (snd entry) else cur) es s = s" for es s
    by (induction es arbitrary: s) simp_all
  with assms Intersection show ?thesis by auto
qed (use assms in simp_all)

text \<open>
  Claim C4. A directional navigation request (previous or next control, arrow key, swipe) leaves
  the current index, the sections' active flags and the progress value as they are; an event
  changes the current index only if it is a visibility report with an intersecting entry; and
  after any sequence of events the current index is the one of the most recent intersecting
  report (\<open>confirmed_index\<close>), so a sequence of navigation requests alone leaves it unchanged.
\<close>

theorem navigation_never_sets_index:
  "(nav_request ev \<longrightarrow>
      currentIndex (dispatch rnd pg ev w) = currentIndex w
      \<and> section_active (dispatch rnd pg ev w) = section_active w
      \<and> progress (dispatch rnd pg ev w) = progress w)
   \<and> (currentIndex (dispatch rnd pg ev w) \<noteq> currentIndex w \<longrightarrow>
         (\<exists>entries. ev = Intersection entries \<and> list_ex fst entries))
   \<and> (titles pg \<noteq> [] \<longrightarrow> currentIndex (run rnd pg evs w) = confirmed_index evs (currentIndex w))
   \<and> (list_all nav_request evs \<longrightarrow> currentIndex (run rnd pg evs w) = currentIndex w)"
proof (intro conjI impI)
  assume "nav_request ev"
  from nav_request_keeps [OF this]
  show "currentIndex (dispatch rnd pg ev w) = currentIndex w"
    and "section_active (dispatch rnd pg ev w) = section_active w"
    and "progress (dispatch rnd pg ev w) = progress w"
    by simp_all
next
  assume "currentIndex (dispatch rnd pg ev w) \<noteq> currentIndex w"
  then have "confirmed_index [ev] (currentIndex w) \<noteq> currentIndex w"
    by (simp add: dispatch_def currentIndex_listener split: if_splits)
  then show "\<exists>entries. ev = Intersection entries \<and> list_ex fst entries"
    by (rule confirmed_index_changes)
next
  assume "titles pg \<noteq> []"
  then show "currentIndex (run rnd pg evs w) = confirmed_index evs (currentIndex w)"
    by (rule currentIndex_run)
next
  assume a: "list_all nav_request evs"
  show "currentIndex (run rnd pg evs w) = currentIndex w"
  proof (cases "titles pg = []")
    case True
    have "fold (dispatch rnd pg) evs w = w"
      by (induction evs) (simp_all add: dispatch_def True)
    then show ?thesis by (simp add: run_def)
  next
    case False
    then show ?thesis by (simp add: currentIndex_run confirmed_index_requests [OF a])
  qed
qed

theorem navigation_never_sets_index_witness:
  "nav_request NextClick \<and> titles sample_page \<noteq> []
   \<and> list_all nav_request [NextClick, NextClick, KeyDown ArrowDown, TouchEnd 80]
   \<and> currentIndex (dispatch mid_draws sample_page NextClick (init mid_draws sample_page)) = 0
   \<and> currentIndex (run mid_draws sample_page [NextClick, NextClick, KeyDown ArrowDown, TouchEnd 80]
        (init mid_draws sample_page)) = 0
   \<and> currentIndex (run mid_draws sample_page
        [Intersection [(True, 1)], NextClick, NextClick, KeyDown ArrowDown, Intersection [(False, 0), (True, 2)],
         PrevClick] (init mid_draws sample_page)) = 2"
proof -
  have c: "currentIndex (init mid_draws sample_page) = 0" by code_simp
  have t: "titles sample_page \<noteq> []" by (simp add: sample_page_def)
  have l: "list_all nav_request [NextClick, NextClick, KeyDown ArrowDown, TouchEnd 80]" by simp
  from navigation_never_sets_index [where ev = NextClick and rnd = mid_draws and pg = sample_page
      and w = "init mid_draws sample_page"
      and evs = "[NextClick, NextClick, KeyDown ArrowDown, TouchEnd 80]"] l c
  have a: "currentIndex (dispatch mid_draws sample_page NextClick (init mid_draws sample_page)) = 0"
    and b: "currentIndex (run mid_draws sample_page [NextClick, NextClick, KeyDown ArrowDown, TouchEnd 80]
        (init mid_draws sample_page)) = 0"
    by simp_all
  from navigation_never_sets_index [where ev = NextClick and rnd = mid_draws and pg = sample_page
      and w = "init mid_draws sample_page"
      and evs = "[Intersection [(True, 1)], NextClick, NextClick, KeyDown ArrowDown,
         Intersection [(False, 0), (True, 2)], PrevClick]"] t c
  have "currentIndex (run mid_draws sample_page
        [Intersection [(True, 1)], NextClick, NextClick, KeyDown ArrowDown, Intersection [(False, 0), (True, 2)],
         PrevClick] (init mid_draws sample_page)) = 2"
    by simp
  with a b t l show ?thesis by simp
qed

section \<open>The navigator's timer bookkeeping\<close>

lemma tidy_iff:
  "tidy w \<longleftrightarrow>
     distinct (map fst (timers w))
     \<and> (\<forall>e \<in> set (timers w). fst e < next_handle w
           \<and> (is_scramble (snd e) \<longrightarrow> scrambleInterval w = Some (fst e))
           \<and> (is_idle (snd e) \<longrightarrow> morphTimeout w = Some (fst e)))"
  by (auto simp: tidy_def scramble_runs_def idle_timers_def list_all_iff) blast+







lemma tidy_fields [simp]:
  "tidy (w\<lparr>textContent := a\<rparr>) = tidy w"
  "tidy (w\<lparr>draws := b\<rparr>) = tidy w"
  "tidy (w\<lparr>currentIndex := c\<rparr>) = tidy w"
  "tidy (w\<lparr>isExpanded := d\<rparr>) = tidy w"
  "tidy (w\<lparr>isMenuOpen := e\<rparr>) = tidy w"
  "tidy (w\<lparr>isAnimating := f\<rparr>) = tidy w"
  "tidy (w\<lparr>idleTimeout := g\<rparr>) = tidy w"
  "tidy (w\<lparr>island_expanded := i\<rparr>) = tidy w"
  "tidy (w\<lparr>glitching := j\<rparr>) = tidy w"
  "tidy (w\<lparr>section_active := k\<rparr>) = tidy w"
  "tidy (w\<lparr>menu_open_class := l\<rparr>) = tidy w"
  "tidy (w\<lparr>progress := m\<rparr>) = tidy w"
  "tidy (w\<lparr>touchStartY := n\<rparr>) = tidy w"
  "tidy (w\<lparr>scrolls := p\<rparr>) = tidy w"
  by (simp_all add: tidy_iff)

lemma clearIfSet_fields [simp]:
  fixes w :: world
  shows "next_handle (clearIfSet x w) = next_handle w"
    and "morphTimeout (clearIfSet x w) = morphTimeout w"
    and "scrambleInterval (clearIfSet x w) = scrambleInterval w"
    and "idleTimeout (clearIfSet x w) = idleTimeout w"
    and "isExpanded (clearIfSet x w) = isExpanded w"
    and "isMenuOpen (clearIfSet x w) = isMenuOpen w"
    and "isAnimating (clearIfSet x w) = isAnimating w"
    and "draws (clearIfSet x w) = draws w"
    and "textContent (clearIfSet x w) = textContent w"
  by (simp_all add: clearIfSet_def clearTimer_def split: option.split)








lemma idle_timers_draws [simp]: "idle_timers (w\<lparr>draws := k\<rparr>) = idle_timers w"
  by (simp add: idle_timers_def)



lemma scramble_runs_fields [simp]:
  "scramble_runs (w\<lparr>isAnimating := b\<rparr>) = scramble_runs w"
  "scramble_runs (w\<lparr>scrambleInterval := x\<rparr>) = scramble_runs w"
  by (simp_all add: scramble_runs_def)




















section \<open>C3: one scramble run per navigator\<close>
















section \<open>C6: the idle glitch\<close>


lemma gh_fields [simp]:
  fixes w :: world
  shows "glitch_handles (w\<lparr>textContent := a\<rparr>) = glitch_handles w"
    and "glitch_handles (w\<lparr>draws := b\<rparr>) = glitch_handles w"
    and "glitch_handles (w\<lparr>next_handle := b'\<rparr>) = glitch_handles w"
    and "glitch_handles (w\<lparr>currentIndex := c\<rparr>) = glitch_handles w"
    and "glitch_handles (w\<lparr>isExpanded := d\<rparr>) = glitch_handles w"
    and "glitch_handles (w\<lparr>isMenuOpen := e\<rparr>) = glitch_handles w"
    and "glitch_handles (w\<lparr>isAnimating := f\<rparr>) = glitch_handles w"
    and "glitch_handles (w\<lparr>idleTimeout := g\<rparr>) = glitch_handles w"
    and "glitch_handles (w\<lparr>scrambleInterval := g'\<rparr>) = glitch_handles w"
    and "glitch_handles (w\<lparr>morphTimeout := g''\<rparr>) = glitch_handles w"
    and "glitch_handles (w\<lparr>island_expanded := i\<rparr>) = glitch_handles w"
    and "glitch_handles (w\<lparr>glitching := j\<rparr>) = glitch_handles w"
    and "glitch_handles (w\<lparr>section_active := k\<rparr>) = glitch_handles w"
    and "glitch_handles (w\<lparr>menu_open_class := l\<rparr>) = glitch_handles w"
    and "glitch_handles (w\<lparr>progress := m\<rparr>) = glitch_handles w"
    and "glitch_handles (w\<lparr>touchStartY := n\<rparr>) = glitch_handles w"
    and "glitch_handles (w\<lparr>scrolls := p\<rparr>) = glitch_handles w"
  by (simp_all add: glitch_handles_def glitch_runs_def)















lemma clearTimer_flags [simp]:
  fixes w :: world
  shows "isExpanded (clearTimer h w) = isExpanded w" and "isMenuOpen (clearTimer h w) = isMenuOpen w"
  by (simp_all add: clearTimer_def)







lemma resetIdleTimer_fields [simp]:
  "morphTimeout (resetIdleTimer w) = morphTimeout w"
  "isExpanded (resetIdleTimer w) = isExpanded w"
  by (simp_all add: resetIdleTimer_def setTimer_def Let_def)








section \<open>C9: a reveal runs once\<close>

lemma length_change [simp]: "length (change f batch els) = length els"
  unfolding change_def by (induction batch arbitrary: els) simp_all






lemma reach85_batch:
  defines "pick s ids \<equiv> filter (\<lambda>i. i < length (elements s) \<and> data_animate (elements s ! i)
                               \<and> reveal_armed (elements s ! i)) (remdups ids)"
  shows "elements (reach85 ids s)
       = change (\<lambda>e. e\<lparr>reveal_runs := Suc (reveal_runs e)\<rparr>) (pick s ids)
           (change (\<lambda>e. e\<lparr>reveal_armed := False\<rparr>) (pick s ids) (elements s))"
    and "pending (reach85 ids s) = (if pick s ids = [] then pending s else pending s @ [pick s ids])"
proof -
  have e: "change f [] els = els" for f els by (simp add: change_def)
  show "elements (reach85 ids s)
       = change (\<lambda>e. e\<lparr>reveal_runs := Suc (reveal_runs e)\<rparr>) (pick s ids)
           (change (\<lambda>e. e\<lparr>reveal_armed := False\<rparr>) (pick s ids) (elements s))"
    by (simp add: reach85_def onEnter_reveal_def Let_def pick_def e)
  show "pending (reach85 ids s) = (if pick s ids = [] then pending s else pending s @ [pick s ids])"
    by (simp add: reach85_def onEnter_reveal_def Let_def pick_def)
qed





lemma length_steps [simp]:
  "length (elements (reach85 ids s)) = length (elements s)"
  "length (elements (reach80 ids s)) = length (elements s)"
  "length (elements (onStart k s)) = length (elements s)"
  by (simp_all add: reach85_batch(1) onStart_def reach80_def onEnter_card_def Let_def)









end
